theory Spec2Isabelle
  imports Main
begin

section \<open>Strings\<close>

text \<open>
  A JavaScript string is modelled as an Isabelle \<open>string\<close>: a list of characters, one
  per code unit, for the code units below 256. The date notation itself is ASCII.
\<close>

definition startsWith :: "string \<Rightarrow> string \<Rightarrow> bool" where
  "startsWith s p = (take (length p) s = p)"

definition endsWith :: "string \<Rightarrow> string \<Rightarrow> bool" where
  "endsWith s p = (length p \<le> length s \<and> drop (length s - length p) s = p)"

definition includesChar :: "string \<Rightarrow> char \<Rightarrow> bool" where
  "includesChar s c = (c \<in> set s)"

text \<open>\<open>String.prototype.trim\<close> strips white space and line terminators at both ends.\<close>

definition isWhiteSpace :: "char \<Rightarrow> bool" where
  "isWhiteSpace c = (c \<in> set [CHR 0x09, CHR 0x0A, CHR 0x0B, CHR 0x0C, CHR 0x0D, CHR 0x20, CHR 0xA0])"

definition trim :: "string \<Rightarrow> string" where
  "trim s = rev (dropWhile isWhiteSpace (rev (dropWhile isWhiteSpace s)))"

text \<open>
  \<open>s.split(c)\<close> for a one-character separator: every occurrence of the separator
  ends a part, so a string with \<open>n\<close> separators gives \<open>n + 1\<close> parts.
\<close>

fun split :: "string \<Rightarrow> char \<Rightarrow> string list" where
  "split [] c = [[]]"
| "split (x # xs) c =
     (if x = c then [] # split xs c
      else (case split xs c of
              [] \<Rightarrow> [[x]]
            | p # ps \<Rightarrow> (x # p) # ps))"

text \<open>
  Array destructuring \<open>[a, b] = parts\<close> reads index 0 and index 1; a missing index is
  \<open>undefined\<close>, here \<open>None\<close>.
\<close>

fun element :: "'a list \<Rightarrow> nat \<Rightarrow> 'a option" where
  "element [] n = None"
| "element (x # xs) 0 = Some x"
| "element (x # xs) (Suc n) = element xs n"

section \<open>The two token patterns\<close>

text \<open>
  Both regular expressions are anchored at both ends and every element of them consumes
  exactly one character, so a pattern is a list of character classes and a string matches
  when it has the pattern's length and each character is in its class.
\<close>

datatype charClass = Digit | Lit char

fun inClass :: "charClass \<Rightarrow> char \<Rightarrow> bool" where
  "inClass Digit c = (c \<in> set ''0123456789'')"
| "inClass (Lit l) c = (c = l)"

definition test :: "charClass list \<Rightarrow> string \<Rightarrow> bool" where
  "test re s = list_all2 inClass re s"

definition TANA_DATE_REGEX :: "charClass list" where
  "TANA_DATE_REGEX =
     [Digit, Digit, Digit, Digit, Lit CHR ''-'', Digit, Digit, Lit CHR ''-'', Digit, Digit]"

definition TANA_DATE_TIME_REGEX :: "charClass list" where
  "TANA_DATE_TIME_REGEX =
     [Digit, Digit, Digit, Digit, Lit CHR ''-'', Digit, Digit, Lit CHR ''-'', Digit, Digit,
      Lit CHR ''T'', Digit, Digit, Lit CHR '':'', Digit, Digit]"

section \<open>The date notation parser\<close>

text \<open>
  \<open>value.match(/^\[\[date:(.+)\]\]$/)\<close>: the expression is anchored, so the group is
  what lies between the first seven and the last two characters; \<open>.\<close> matches no line
  terminator and \<open>+\<close> needs one character at least.
\<close>

definition isLineTerminator :: "char \<Rightarrow> bool" where
  "isLineTerminator c = (c = CHR 0x0A \<or> c = CHR 0x0D)"

definition matchContent :: "string \<Rightarrow> string option" where
  "matchContent v =
     (let content = take (length v - 9) (drop 7 v) in
      if 10 \<le> length v \<and> take 7 v = ''[[date:'' \<and> drop (length v - 2) v = '']]''
         \<and> \<not> list_ex isLineTerminator content
      then Some content else None)"

definition isToken :: "string \<Rightarrow> bool" where
  "isToken s = (test TANA_DATE_REGEX s \<or> test TANA_DATE_TIME_REGEX s)"

definition validateTanaDateValue :: "string \<Rightarrow> bool" where
  "validateTanaDateValue v =
     (if \<not> startsWith v ''[[date:'' \<or> \<not> endsWith v '']]'' then False
      else case matchContent v of
        None \<Rightarrow> False
      | Some content \<Rightarrow>
          if content = [] then False
          else if trim content = [] then False
          else if \<not> includesChar content CHR ''/''
            then test TANA_DATE_REGEX content \<or> test TANA_DATE_TIME_REGEX content
          else
            (let parts = split content CHR ''/'' in
             case (element parts 0, element parts 1) of
               (Some startPart, Some endPart) \<Rightarrow>
                 if startPart = [] \<or> endPart = [] then False
                 else
                   (let startValid =
                          (test TANA_DATE_REGEX startPart \<or> test TANA_DATE_TIME_REGEX startPart);
                        endValid =
                          (test TANA_DATE_REGEX endPart \<or> test TANA_DATE_TIME_REGEX endPart)
                    in startValid \<and> endValid)
             | _ \<Rightarrow> False))"

record TanaDateInfo =
  original :: string
  info_start :: string
  info_end :: "string option"

text \<open>
  \<open>date.replace(/^\[\[date:(.+)\]\]$/, '$1')\<close> gives the group when the expression
  matches and the string unchanged when it does not. In the range case the second part
  of the split is the end; \<open>split\<close> of a string with a separator has two parts at least.
\<close>

definition extractTanaDateInfo :: "string \<Rightarrow> TanaDateInfo" where
  "extractTanaDateInfo d =
     (let content = (case matchContent d of Some c \<Rightarrow> c | None \<Rightarrow> d) in
      if \<not> includesChar content CHR ''/''
      then \<lparr> original = d, info_start = content, info_end = None \<rparr>
      else
        (let parts = split content CHR ''/'' in
         \<lparr> original = d,
           info_start = (case element parts 0 of Some p \<Rightarrow> p | None \<Rightarrow> []),
           info_end = element parts 1 \<rparr>))"

section \<open>The event time builder\<close>

datatype error = Error string | TypeError

record EventDateTime =
  date :: "string option"
  dateTime :: "string option"
  timeZone :: "string option"

record EventDateTimeInfo =
  range_start :: EventDateTime
  range_end :: EventDateTime

definition createEventDateTime :: "string \<Rightarrow> string \<Rightarrow> error + EventDateTime" where
  "createEventDateTime timeZone' dateTimeString =
     (if test TANA_DATE_TIME_REGEX dateTimeString
      then Inr \<lparr> date = None, dateTime = Some (dateTimeString @ '':00''), timeZone = Some timeZone' \<rparr>
      else if test TANA_DATE_REGEX dateTimeString
      then Inr \<lparr> date = Some dateTimeString, dateTime = None, timeZone = Some timeZone' \<rparr>
      else Inl (Error (''Invalid date/time format: '' @ dateTimeString)))"

text \<open>
  \<open>dateInfo?.end ? createEventDateTime(dateInfo.end) : start\<close>: an absent end and an
  empty end string are both falsy, and the end is then the start.
\<close>

definition buildEventDateTimeInfo :: "TanaDateInfo \<Rightarrow> string \<Rightarrow> error + EventDateTimeInfo" where
  "buildEventDateTimeInfo dateInfo timeZone' =
     (case createEventDateTime timeZone' (info_start dateInfo) of
        Inl e \<Rightarrow> Inl e
      | Inr start \<Rightarrow>
          (case info_end dateInfo of
             None \<Rightarrow> Inr \<lparr> range_start = start, range_end = start \<rparr>
           | Some endTok \<Rightarrow>
               if endTok = [] then Inr \<lparr> range_start = start, range_end = start \<rparr>
               else (case createEventDateTime timeZone' endTok of
                       Inl e \<Rightarrow> Inl e
                     | Inr end' \<Rightarrow> Inr \<lparr> range_start = start, range_end = end' \<rparr>)))"

section \<open>Output serialization\<close>

text \<open>
  Modelled from the spec: the \<open>CalendarEvent\<close> type of the calendar module, whose
  declaration is not among the sources. The record has the properties the data model
  names: title, description, location, id, URL and the two ends of the time range. Each
  is optional, as in the calendar's own schema; \<open>None\<close> is \<open>undefined\<close>.
\<close>

record CalendarEvent =
  summary :: "string option"
  description :: "string option"
  location :: "string option"
  event_id :: "string option"
  htmlLink :: "string option"
  event_start :: "EventDateTime option"
  event_end :: "EventDateTime option"

text \<open>What a dynamic property read \<open>event[property]\<close> can give.\<close>

datatype jsValue = Undefined | Str string | Obj

definition ofString :: "string option \<Rightarrow> jsValue" where
  "ofString v = (case v of None \<Rightarrow> Undefined | Some s \<Rightarrow> Str s)"

definition ofObject :: "'a option \<Rightarrow> jsValue" where
  "ofObject v = (case v of None \<Rightarrow> Undefined | Some _ \<Rightarrow> Obj)"

definition getProperty :: "CalendarEvent \<Rightarrow> string \<Rightarrow> jsValue" where
  "getProperty event p =
     (if p = ''summary'' then ofString (summary event)
      else if p = ''description'' then ofString (description event)
      else if p = ''location'' then ofString (location event)
      else if p = ''id'' then ofString (event_id event)
      else if p = ''htmlLink'' then ofString (htmlLink event)
      else if p = ''start'' then ofObject (event_start event)
      else if p = ''end'' then ofObject (event_end event)
      else Undefined)"

text \<open>\<open>if (value)\<close>: \<open>undefined\<close> and the empty string are falsy, an object is truthy.\<close>

fun truthy :: "jsValue \<Rightarrow> bool" where
  "truthy Undefined = False"
| "truthy (Str s) = (s \<noteq> [])"
| "truthy Obj = True"

text \<open>The text a template literal puts for a value.\<close>

fun toString :: "jsValue \<Rightarrow> string" where
  "toString Undefined = ''undefined''"
| "toString (Str s) = s"
| "toString Obj = ''[object Object]''"

record FieldSpec =
  field :: string
  property :: string

text \<open>
  The callback of \<open>fieldsToReturn.reduce\<close>, with the accumulator, the element and its
  index; \<open>len\<close> is \<open>fieldsToReturn.length\<close>.
\<close>

definition pasteStep :: "CalendarEvent \<Rightarrow> string \<Rightarrow> nat \<Rightarrow> string \<Rightarrow> nat \<times> FieldSpec \<Rightarrow> string" where
  "pasteStep event calendarId len acc e =
     (case e of (index, f) \<Rightarrow>
        (let v = (if property f = ''calendarId'' then Str calendarId
                  else getProperty event (property f))
         in if truthy v
            then acc @ field f @ ''::'' @ toString v @
                   (if 1 < len \<and> index \<noteq> len - 1 then [CHR 0x0A] else [])
            else acc))"

definition buildTanaPaste :: "CalendarEvent \<Rightarrow> string \<Rightarrow> FieldSpec list \<Rightarrow> string" where
  "buildTanaPaste event calendarId fieldsToReturn =
     foldl (pasteStep event calendarId (length fieldsToReturn)) [] (enumerate 0 fieldsToReturn)"

section \<open>The partial update\<close>

record PartialEventData =
  data_name :: "string option"
  data_date :: "TanaDateInfo option"
  data_description :: "string option"
  data_timeZone :: "string option"
  data_location :: "string option"

record EventOptions =
  opt_prefix :: "string option"
  opt_suffix :: "string option"
  fieldsToReturn :: "FieldSpec list"

definition DEFAULT_FIELDS_TO_RETURN :: "FieldSpec list" where
  "DEFAULT_FIELDS_TO_RETURN =
     [\<lparr> field = ''Event URL'', property = ''htmlLink'' \<rparr>,
      \<lparr> field = ''Event ID'', property = ''id'' \<rparr>,
      \<lparr> field = ''Synced Calendar ID'', property = ''calendarId'' \<rparr>]"

definition DEFAULT_OPTIONS :: EventOptions where
  "DEFAULT_OPTIONS =
     \<lparr> opt_prefix = None, opt_suffix = None, fieldsToReturn = DEFAULT_FIELDS_TO_RETURN \<rparr>"

text \<open>
  The calendar module is not among the sources, so the collaborator is a parameter: three
  operations over a state \<open>'s\<close> of its own, each answering with an error it throws or
  with the event it returns, which the service tests for being there.
\<close>

record 's calendar =
  getEvent :: "string \<Rightarrow> string \<Rightarrow> string \<Rightarrow> 's \<Rightarrow> (error + CalendarEvent option) \<times> 's"
  moveEventToAnotherCalendar ::
    "string \<Rightarrow> string \<Rightarrow> string \<Rightarrow> string \<Rightarrow> 's \<Rightarrow> (error + CalendarEvent option) \<times> 's"
  putEvent :: "string \<Rightarrow> string \<Rightarrow> string \<Rightarrow> CalendarEvent \<Rightarrow> 's \<Rightarrow> (error + CalendarEvent option) \<times> 's"

text \<open>The calls the service makes, in the order it makes them, with their arguments.\<close>

datatype call =
    GetEvent string string string
  | MoveEvent string string string string
  | UpdateEvent string string string CalendarEvent

record 's outcome =
  result :: "error + string"
  backend :: 's
  calls :: "call list"

text \<open>\<open>Object.keys(data).length > 0\<close>\<close>

definition hasFieldsToUpdate :: "PartialEventData \<Rightarrow> bool" where
  "hasFieldsToUpdate d =
     (data_name d \<noteq> None \<or> data_date d \<noteq> None \<or> data_description d \<noteq> None
      \<or> data_timeZone d \<noteq> None \<or> data_location d \<noteq> None)"

text \<open>\<open>data.timeZone || 'Etc/UTC'\<close>\<close>

definition timeZoneOf :: "PartialEventData \<Rightarrow> string" where
  "timeZoneOf d =
     (case data_timeZone d of
        None \<Rightarrow> ''Etc/UTC''
      | Some tz \<Rightarrow> if tz = [] then ''Etc/UTC'' else tz)"

text \<open>
  The test both ends go through:
  \<open>p.dateTime !== current?.dateTime || p.date !== current?.date\<close>.
\<close>

definition differs :: "EventDateTime \<Rightarrow> EventDateTime option \<Rightarrow> bool" where
  "differs p current =
     (dateTime p \<noteq> Option.bind current dateTime \<or> date p \<noteq> Option.bind current date)"

definition emptyEvent :: CalendarEvent where
  "emptyEvent =
     \<lparr> summary = None, description = None, location = None, event_id = None,
       htmlLink = None, event_start = None, event_end = None \<rparr>"

text \<open>
  The merge of the fetched event with the updates. The comparisons read the event as
  it was fetched, the assignments write the copy.
\<close>

definition mergeFields :: "CalendarEvent \<Rightarrow> PartialEventData \<Rightarrow> CalendarEvent" where
  "mergeFields event d =
     (let u0 = event;
          u1 = (if data_name d \<noteq> None \<and> data_name d \<noteq> summary event
                then u0\<lparr> summary := data_name d \<rparr> else u0);
          u2 = (if data_description d \<noteq> None \<and> data_description d \<noteq> description event
                then u1\<lparr> description := data_description d \<rparr> else u1);
          u3 = (if data_location d \<noteq> None \<and> data_location d \<noteq> location event
                then u2\<lparr> location := data_location d \<rparr> else u2)
      in u3)"

definition mergeDate :: "CalendarEvent \<Rightarrow> EventDateTimeInfo \<Rightarrow> CalendarEvent \<Rightarrow> CalendarEvent" where
  "mergeDate event r u3 =
     (let start = range_start r;
          end' = range_end r;
          u4 = (if differs start (event_start event)
                then u3\<lparr> event_start := Some start, event_end := Some end' \<rparr> else u3);
          u5 = (if differs end' (event_end event)
                then u4\<lparr> event_end := Some end' \<rparr> else u4)
      in u5)"

text \<open>
  With no event in hand the copy is the empty object, and the first read of a property
  of the event is a type error; the date is rebuilt before the event is read.
\<close>

definition mergeEventData :: "CalendarEvent option \<Rightarrow> PartialEventData \<Rightarrow> error + CalendarEvent" where
  "mergeEventData event d =
     (case event of
        Some ev \<Rightarrow>
          (case data_date d of
             None \<Rightarrow> Inr (mergeFields ev d)
           | Some dateInfo \<Rightarrow>
               (case buildEventDateTimeInfo dateInfo (timeZoneOf d) of
                  Inl e \<Rightarrow> Inl e
                | Inr r \<Rightarrow> Inr (mergeDate ev r (mergeFields ev d))))
      | None \<Rightarrow>
          if data_name d \<noteq> None \<or> data_description d \<noteq> None \<or> data_location d \<noteq> None
          then Inl TypeError
          else (case data_date d of
                  None \<Rightarrow> Inr emptyEvent
                | Some dateInfo \<Rightarrow>
                    (case buildEventDateTimeInfo dateInfo (timeZoneOf d) of
                       Inl e \<Rightarrow> Inl e
                     | Inr r \<Rightarrow> Inl TypeError)))"

text \<open>
  The last line of the update: the paste over the event in hand. Without an event only
  the \<open>calendarId\<close> property can be read.
\<close>

definition pasteOf :: "CalendarEvent option \<Rightarrow> string \<Rightarrow> FieldSpec list \<Rightarrow> error + string" where
  "pasteOf event calendarId fs =
     (case event of
        Some ev \<Rightarrow> Inr (buildTanaPaste ev calendarId fs)
      | None \<Rightarrow>
          if list_all (\<lambda>f. property f = ''calendarId'') fs
          then Inr (buildTanaPaste emptyEvent calendarId fs)
          else Inl TypeError)"

text \<open>The block under \<open>hasFieldsToUpdate\<close>, from the merge to the update call.\<close>

definition submitUpdate ::
  "'s calendar \<Rightarrow> string \<Rightarrow> string \<Rightarrow> string \<Rightarrow> PartialEventData \<Rightarrow> EventOptions
     \<Rightarrow> CalendarEvent option \<Rightarrow> 's \<Rightarrow> call list \<Rightarrow> 's outcome" where
  "submitUpdate gc accessToken currentCalendarId eventId d options event s cs =
     (case mergeEventData event d of
        Inl e \<Rightarrow> \<lparr> result = Inl e, backend = s, calls = cs \<rparr>
      | Inr updatedEventData \<Rightarrow>
          (let cs' = cs @ [UpdateEvent accessToken currentCalendarId eventId updatedEventData] in
           case putEvent gc accessToken currentCalendarId eventId updatedEventData s of
             (Inl e, s') \<Rightarrow> \<lparr> result = Inl e, backend = s', calls = cs' \<rparr>
           | (Inr event', s') \<Rightarrow>
               \<lparr> result = pasteOf event' currentCalendarId (fieldsToReturn options),
                 backend = s', calls = cs' \<rparr>))"

text \<open>The update after the fetch and the move, from \<open>hasFieldsToUpdate\<close> on.\<close>

definition applyUpdate ::
  "'s calendar \<Rightarrow> string \<Rightarrow> string \<Rightarrow> string \<Rightarrow> PartialEventData \<Rightarrow> EventOptions
     \<Rightarrow> CalendarEvent option \<Rightarrow> 's \<Rightarrow> call list \<Rightarrow> 's outcome" where
  "applyUpdate gc accessToken currentCalendarId eventId d options event s cs =
     (if hasFieldsToUpdate d then
        (case event of
           Some ev \<Rightarrow>
             submitUpdate gc accessToken currentCalendarId eventId d options event s cs
         | None \<Rightarrow>
             (let cs' = cs @ [GetEvent accessToken currentCalendarId eventId] in
              case getEvent gc accessToken currentCalendarId eventId s of
                (Inl e, s') \<Rightarrow> \<lparr> result = Inl e, backend = s', calls = cs' \<rparr>
              | (Inr event', s') \<Rightarrow>
                  submitUpdate gc accessToken currentCalendarId eventId d options event' s' cs'))
      else \<lparr> result = pasteOf event currentCalendarId (fieldsToReturn options),
             backend = s, calls = cs \<rparr>)"

text \<open>
  \<open>toCalendarId && toCalendarId !== fromCalendarId\<close>: the calendar to move to, if the
  event is to move.
\<close>

definition moveTarget :: "string \<Rightarrow> string option \<Rightarrow> string option" where
  "moveTarget fromCalendarId toCalendarId =
     (case toCalendarId of
        None \<Rightarrow> None
      | Some t \<Rightarrow> if t \<noteq> [] \<and> t \<noteq> fromCalendarId then Some t else None)"

definition updateEvent ::
  "'s calendar \<Rightarrow> string \<Rightarrow> string \<Rightarrow> string \<Rightarrow> PartialEventData \<Rightarrow> EventOptions
     \<Rightarrow> string option \<Rightarrow> 's \<Rightarrow> 's outcome" where
  "updateEvent gc accessToken fromCalendarId eventId d options toCalendarId s0 =
     (let cs = [GetEvent accessToken fromCalendarId eventId] in
      case getEvent gc accessToken fromCalendarId eventId s0 of
        (Inl e, s1) \<Rightarrow> \<lparr> result = Inl e, backend = s1, calls = cs \<rparr>
      | (Inr None, s1) \<Rightarrow>
          \<lparr> result = Inl (Error (''Event not found: '' @ eventId)), backend = s1, calls = cs \<rparr>
      | (Inr (Some event), s1) \<Rightarrow>
          (case moveTarget fromCalendarId toCalendarId of
             Some t \<Rightarrow>
               (let cs' = cs @ [MoveEvent accessToken fromCalendarId eventId t] in
                case moveEventToAnotherCalendar gc accessToken fromCalendarId eventId t s1 of
                  (Inl e, s2) \<Rightarrow> \<lparr> result = Inl e, backend = s2, calls = cs' \<rparr>
                | (Inr moved, s2) \<Rightarrow>
                    applyUpdate gc accessToken t eventId d options moved s2 cs')
           | None \<Rightarrow>
               applyUpdate gc accessToken fromCalendarId eventId d options (Some event) s1 cs))"

section \<open>A calendar for the examples\<close>

text \<open>
  A collaborator that holds at most one event: it answers a fetch and a move with the
  event it holds, and an update replaces the event and returns it.
\<close>

definition singleEventCalendar :: "CalendarEvent option calendar" where
  "singleEventCalendar =
     \<lparr> getEvent = (\<lambda>accessToken calendarId eventId s. (Inr s, s)),
       moveEventToAnotherCalendar = (\<lambda>accessToken fromId eventId toId s. (Inr s, s)),
       putEvent = (\<lambda>accessToken calendarId eventId r s. (Inr (Some r), Some r)) \<rparr>"

definition tokyoEvent :: CalendarEvent where
  "tokyoEvent =
     \<lparr> summary = Some ''Standup'', description = Some ''Daily'', location = Some ''Room 1'',
       event_id = Some ''abc'', htmlLink = Some ''https://calendar.example/abc'',
       event_start = Some \<lparr> date = Some ''2025-06-18'', dateTime = None, timeZone = Some ''Asia/Tokyo'' \<rparr>,
       event_end = Some \<lparr> date = Some ''2025-06-19'', dateTime = None, timeZone = Some ''Asia/Tokyo'' \<rparr> \<rparr>"

definition noChanges :: PartialEventData where
  "noChanges =
     \<lparr> data_name = None, data_date = None, data_description = None, data_timeZone = None,
       data_location = None \<rparr>"

section \<open>Facts about the patterns\<close>

lemma test_date_length: "test TANA_DATE_REGEX s \<Longrightarrow> length s = 10"
  by (auto simp: test_def TANA_DATE_REGEX_def dest: list_all2_lengthD)

lemma test_date_time_length: "test TANA_DATE_TIME_REGEX s \<Longrightarrow> length s = 16"
  by (auto simp: test_def TANA_DATE_TIME_REGEX_def dest: list_all2_lengthD)

lemma createEventDateTime_timed:
  "test TANA_DATE_TIME_REGEX tok \<Longrightarrow>
   createEventDateTime tz tok = Inr \<lparr> date = None, dateTime = Some (tok @ '':00''), timeZone = Some tz \<rparr>"
  by (simp add: createEventDateTime_def)

lemma createEventDateTime_all_day:
  "test TANA_DATE_REGEX tok \<Longrightarrow>
   createEventDateTime tz tok = Inr \<lparr> date = Some tok, dateTime = None, timeZone = Some tz \<rparr>"
  using test_date_length[of tok] test_date_time_length[of tok]
  by (auto simp add: createEventDateTime_def)

lemma createEventDateTime_invalid:
  "\<not> isToken tok \<Longrightarrow> createEventDateTime tz tok = Inl (Error (''Invalid date/time format: '' @ tok))"
  by (simp add: createEventDateTime_def isToken_def)

lemma isToken_nonempty: "isToken tok \<Longrightarrow> tok \<noteq> []"
  using test_date_length[of tok] test_date_time_length[of tok]
  by (auto simp: isToken_def)

lemma createEventDateTime_token:
  "isToken tok \<Longrightarrow> \<exists>p. createEventDateTime tz tok = Inr p"
  by (auto simp: isToken_def createEventDateTime_def)

lemmas parser_defs =
  validateTanaDateValue_def extractTanaDateInfo_def matchContent_def startsWith_def endsWith_def
  includesChar_def isLineTerminator_def isWhiteSpace_def trim_def test_def isToken_def
  TANA_DATE_REGEX_def TANA_DATE_TIME_REGEX_def Let_def

section \<open>Recognizing the notation\<close>

text \<open>
  On a content with at most one \<open>/\<close> the validator is exact: a content without \<open>/\<close>
  is accepted when it is a token, and two parts without \<open>/\<close> joined by one are accepted
  when both are tokens.
\<close>

lemma class_chars:
  assumes "list_all2 inClass re s"
    and "\<And>k. k \<in> set re \<Longrightarrow> k = Digit \<or> k = Lit CHR ''-'' \<or> k = Lit CHR ''T'' \<or> k = Lit CHR '':''"
    and "c \<in> set s"
  shows "c \<in> set ''0123456789-T:''"
proof -
  from assms(3) obtain i where i: "i < length s" "s ! i = c"
    by (auto simp: in_set_conv_nth)
  from assms(1) have l: "length re = length s" by (rule list_all2_lengthD)
  from assms(1) i l have ic: "inClass (re ! i) c" by (auto dest: list_all2_nthD)
  from i l have "re ! i \<in> set re" by simp
  then have "re ! i = Digit \<or> re ! i = Lit CHR ''-'' \<or> re ! i = Lit CHR ''T'' \<or> re ! i = Lit CHR '':''"
    by (rule assms(2))
  with ic show ?thesis by auto
qed

lemma token_chars:
  assumes "isToken s" and "c \<in> set s"
  shows "c \<in> set ''0123456789-T:''"
proof -
  from assms(1) consider "list_all2 inClass TANA_DATE_REGEX s" | "list_all2 inClass TANA_DATE_TIME_REGEX s"
    by (auto simp: isToken_def test_def)
  then show ?thesis
  proof cases
    case 1
    then show ?thesis
      by (rule class_chars) (use assms(2) in \<open>auto simp: TANA_DATE_REGEX_def\<close>)
  next
    case 2
    then show ?thesis
      by (rule class_chars) (use assms(2) in \<open>auto simp: TANA_DATE_TIME_REGEX_def\<close>)
  qed
qed

lemma token_no_slash: "isToken s \<Longrightarrow> \<not> includesChar s CHR ''/''"
  using token_chars [of s "CHR ''/''"] by (auto simp: includesChar_def)

lemma token_no_line_terminator: "isToken s \<Longrightarrow> \<not> list_ex isLineTerminator s"
  using token_chars [of s] by (fastforce simp: list_ex_iff isLineTerminator_def)

lemma token_no_white_space: "isToken s \<Longrightarrow> c \<in> set s \<Longrightarrow> \<not> isWhiteSpace c"
  using token_chars [of s c] by (auto simp: isWhiteSpace_def)

lemma dropWhile_all: "(\<forall>x \<in> set (dropWhile P s). P x) \<longleftrightarrow> (\<forall>x \<in> set s. P x)"
  by (induction s) auto

lemma trim_empty: "trim s = [] \<longleftrightarrow> (\<forall>c \<in> set s. isWhiteSpace c)"
  by (simp add: trim_def dropWhile_eq_Nil_conv dropWhile_all)

lemma matchContent_brackets:
  "matchContent (''[[date:'' @ c @ '']]'') =
     (if c \<noteq> [] \<and> \<not> list_ex isLineTerminator c then Some c else None)"
  by (cases c) (auto simp: matchContent_def Let_def)

lemma brackets: "startsWith (''[[date:'' @ c @ '']]'') ''[[date:'' \<and> endsWith (''[[date:'' @ c @ '']]'') '']]''"
  by (simp add: startsWith_def endsWith_def)

lemma split_no_separator: "\<not> includesChar s c \<Longrightarrow> split s c = [s]"
  by (induction s) (auto simp: includesChar_def)

lemma split_first: "\<not> includesChar a c \<Longrightarrow> split (a @ c # b) c = a # split b c"
  by (induction a) (auto simp: includesChar_def)

lemma token_trim: "isToken s \<Longrightarrow> trim s \<noteq> []"
proof -
  assume t: "isToken s"
  have "s \<noteq> []"
    using t by (rule isToken_nonempty)
  then obtain c where "c \<in> set s" by (cases s) auto
  with t show ?thesis by (auto simp: trim_empty dest: token_no_white_space)
qed

lemma validate_single_token:
  assumes "\<not> includesChar c CHR ''/''"
  shows "validateTanaDateValue (''[[date:'' @ c @ '']]'') = isToken c"
proof -
  define v where "v = ''[[date:'' @ c @ '']]''"
  have b: "startsWith v ''[[date:''" "endsWith v '']]''"
    unfolding v_def using brackets [of c] by simp_all
  have m: "matchContent v = (if c \<noteq> [] \<and> \<not> list_ex isLineTerminator c then Some c else None)"
    unfolding v_def by (rule matchContent_brackets)
  have "validateTanaDateValue v = isToken c"
  proof (cases "isToken c")
    case True
    then have "c \<noteq> []" "\<not> list_ex isLineTerminator c" "trim c \<noteq> []"
      by (simp_all add: isToken_nonempty token_no_line_terminator token_trim)
    with True assms b m show ?thesis
      by (simp add: validateTanaDateValue_def isToken_def)
  next
    case False
    with assms b m show ?thesis
      by (simp add: validateTanaDateValue_def isToken_def)
  qed
  then show ?thesis unfolding v_def .
qed

lemma validate_two_part_range:
  assumes "\<not> includesChar a CHR ''/''" and "\<not> includesChar b CHR ''/''"
  shows "validateTanaDateValue (''[[date:'' @ (a @ ''/'' @ b) @ '']]'') = (isToken a \<and> isToken b)"
proof -
  define c where "c = a @ ''/'' @ b"
  define v where "v = ''[[date:'' @ c @ '']]''"
  have b: "startsWith v ''[[date:''" "endsWith v '']]''"
    unfolding v_def using brackets [of c] by simp_all
  have m: "matchContent v = (if c \<noteq> [] \<and> \<not> list_ex isLineTerminator c then Some c else None)"
    unfolding v_def by (rule matchContent_brackets)
  have sp: "split c CHR ''/'' = [a, b]"
    unfolding c_def using assms by (simp add: split_first split_no_separator)
  have inc: "includesChar c CHR ''/''"
    unfolding c_def by (simp add: includesChar_def)
  have tr: "trim c \<noteq> []"
    unfolding c_def by (auto simp: trim_empty isWhiteSpace_def)
  have ne: "c \<noteq> []"
    unfolding c_def by simp
  have "validateTanaDateValue v = (isToken a \<and> isToken b)"
  proof (cases "isToken a \<and> isToken b")
    case True
    then have "\<not> list_ex isLineTerminator c"
      unfolding c_def
      using token_no_line_terminator [of a] token_no_line_terminator [of b]
      by (simp add: isLineTerminator_def)
    moreover have "a \<noteq> []" "b \<noteq> []"
      using True by (simp_all add: isToken_nonempty)
    ultimately show ?thesis
      using True sp inc tr ne b m
      by (simp add: validateTanaDateValue_def isToken_def)
  next
    case False
    then show ?thesis
      using sp inc tr ne b m
      by (auto simp add: validateTanaDateValue_def isToken_def)
  qed
  then show ?thesis unfolding v_def c_def .
qed

lemma validate_needs_brackets:
  "validateTanaDateValue v \<Longrightarrow> startsWith v ''[[date:'' \<and> endsWith v '']]''"
  by (simp add: validateTanaDateValue_def split: if_splits)

text \<open>
  C3. A bracket content with a \<open>/\<close> is to be split in two on the first \<open>/\<close> and accepted
  only when both parts are tokens, so that a content with more than one \<open>/\<close> is
  rejected. The validator splits on every \<open>/\<close> and reads the first two parts only:
  \<open>[[date:2025-06-18/2025-06-19/2025-06-20]]\<close> is accepted, and the decomposition
  then keeps the first two dates and drops the third.
\<close>

theorem C3_three_part_range_accepted:
  "validateTanaDateValue ''[[date:2025-06-18/2025-06-19/2025-06-20]]''
   \<and> extractTanaDateInfo ''[[date:2025-06-18/2025-06-19/2025-06-20]]'' =
       \<lparr> original = ''[[date:2025-06-18/2025-06-19/2025-06-20]]'',
         info_start = ''2025-06-18'', info_end = Some ''2025-06-19'' \<rparr>"
  by (simp add: parser_defs)

theorem C3_three_part_range_accepted_witness:
  "info_end (extractTanaDateInfo ''[[date:2025-06-18/2025-06-19/2025-06-20]]'') = Some ''2025-06-19''"
  using C3_three_part_range_accepted by simp

text \<open>
  C4. The validator is to accept exactly the strings with the prefix, the suffix, a
  content that is not blank and tokens that all match one of the two patterns, and to
  reject every other input. \<open>[[date:2025-06-18/2025-06-19/x]]\<close> has a part that is
  no token, and the validator accepts it: the parts after the second are never tested.
\<close>

theorem C4_malformed_part_accepted:
  "validateTanaDateValue ''[[date:2025-06-18/2025-06-19/x]]'' \<and> \<not> isToken ''x''"
  by (simp add: parser_defs)

theorem C4_malformed_part_accepted_witness:
  "validateTanaDateValue ''[[date:2025-06-18/2025-06-19/x]]'' = True"
  using C4_malformed_part_accepted by simp

section \<open>Building the time range\<close>

text \<open>
  C5. A date-time token becomes a timed point: the token with \<open>:00\<close> appended, and the
  time zone. A date-only token becomes an all-day point: the token as the date, and the
  time zone. With valid tokens the builder returns a range; without an end the end is
  the start. Decomposing \<open>[[date:2025-06-18]]\<close> and building with \<open>Etc/UTC\<close> gives the
  same all-day point on both ends, and \<open>[[date:2025-06-18T08:00/2025-06-19]]\<close> gives a
  timed start with an all-day end.
\<close>

theorem C5_time_builder:
  "(test TANA_DATE_TIME_REGEX tok \<longrightarrow>
      createEventDateTime tz tok =
        Inr \<lparr> date = None, dateTime = Some (tok @ '':00''), timeZone = Some tz \<rparr>)
   \<and> (test TANA_DATE_REGEX tok \<longrightarrow>
      createEventDateTime tz tok = Inr \<lparr> date = Some tok, dateTime = None, timeZone = Some tz \<rparr>)
   \<and> (isToken (info_start d) \<and> info_end d = None \<longrightarrow>
      (\<exists>p. createEventDateTime tz (info_start d) = Inr p
          \<and> buildEventDateTimeInfo d tz = Inr \<lparr> range_start = p, range_end = p \<rparr>))
   \<and> (isToken (info_start d) \<and> info_end d = Some e \<and> isToken e \<longrightarrow>
      (\<exists>p q. createEventDateTime tz (info_start d) = Inr p \<and> createEventDateTime tz e = Inr q
          \<and> buildEventDateTimeInfo d tz = Inr \<lparr> range_start = p, range_end = q \<rparr>))
   \<and> buildEventDateTimeInfo (extractTanaDateInfo ''[[date:2025-06-18]]'') ''Etc/UTC'' =
       Inr \<lparr> range_start = \<lparr> date = Some ''2025-06-18'', dateTime = None, timeZone = Some ''Etc/UTC'' \<rparr>,
             range_end = \<lparr> date = Some ''2025-06-18'', dateTime = None, timeZone = Some ''Etc/UTC'' \<rparr> \<rparr>
   \<and> buildEventDateTimeInfo (extractTanaDateInfo ''[[date:2025-06-18T08:00/2025-06-19]]'') tz =
       Inr \<lparr> range_start = \<lparr> date = None, dateTime = Some ''2025-06-18T08:00:00'', timeZone = Some tz \<rparr>,
             range_end = \<lparr> date = Some ''2025-06-19'', dateTime = None, timeZone = Some tz \<rparr> \<rparr>"
proof (intro conjI impI)
  assume "test TANA_DATE_TIME_REGEX tok"
  then show "createEventDateTime tz tok =
      Inr \<lparr> date = None, dateTime = Some (tok @ '':00''), timeZone = Some tz \<rparr>"
    by (rule createEventDateTime_timed)
next
  assume "test TANA_DATE_REGEX tok"
  then show "createEventDateTime tz tok =
      Inr \<lparr> date = Some tok, dateTime = None, timeZone = Some tz \<rparr>"
    by (rule createEventDateTime_all_day)
next
  assume a: "isToken (info_start d) \<and> info_end d = None"
  then obtain p where p: "createEventDateTime tz (info_start d) = Inr p"
    using createEventDateTime_token by blast
  with a show "\<exists>p. createEventDateTime tz (info_start d) = Inr p
      \<and> buildEventDateTimeInfo d tz = Inr \<lparr> range_start = p, range_end = p \<rparr>"
    by (simp add: buildEventDateTimeInfo_def)
next
  assume a: "isToken (info_start d) \<and> info_end d = Some e \<and> isToken e"
  then obtain p where p: "createEventDateTime tz (info_start d) = Inr p"
    using createEventDateTime_token by blast
  from a obtain q where q: "createEventDateTime tz e = Inr q"
    using createEventDateTime_token by blast
  from a have "e \<noteq> []" by (simp add: isToken_nonempty)
  with a p q show "\<exists>p q. createEventDateTime tz (info_start d) = Inr p
      \<and> createEventDateTime tz e = Inr q
      \<and> buildEventDateTimeInfo d tz = Inr \<lparr> range_start = p, range_end = q \<rparr>"
    by (simp add: buildEventDateTimeInfo_def)
next
  show "buildEventDateTimeInfo (extractTanaDateInfo ''[[date:2025-06-18]]'') ''Etc/UTC'' =
       Inr \<lparr> range_start = \<lparr> date = Some ''2025-06-18'', dateTime = None, timeZone = Some ''Etc/UTC'' \<rparr>,
             range_end = \<lparr> date = Some ''2025-06-18'', dateTime = None, timeZone = Some ''Etc/UTC'' \<rparr> \<rparr>"
    by (simp add: buildEventDateTimeInfo_def createEventDateTime_def parser_defs)
next
  show "buildEventDateTimeInfo (extractTanaDateInfo ''[[date:2025-06-18T08:00/2025-06-19]]'') tz =
       Inr \<lparr> range_start = \<lparr> date = None, dateTime = Some ''2025-06-18T08:00:00'', timeZone = Some tz \<rparr>,
             range_end = \<lparr> date = Some ''2025-06-19'', dateTime = None, timeZone = Some tz \<rparr> \<rparr>"
    by (simp add: buildEventDateTimeInfo_def createEventDateTime_def parser_defs)
qed

theorem C5_time_builder_witness:
  "test TANA_DATE_TIME_REGEX ''2025-06-18T08:00''
   \<and> createEventDateTime ''Etc/UTC'' ''2025-06-18T08:00'' =
       Inr \<lparr> date = None, dateTime = Some ''2025-06-18T08:00:00'', timeZone = Some ''Etc/UTC'' \<rparr>
   \<and> test TANA_DATE_REGEX ''2025-06-19''
   \<and> createEventDateTime ''Etc/UTC'' ''2025-06-19'' =
       Inr \<lparr> date = Some ''2025-06-19'', dateTime = None, timeZone = Some ''Etc/UTC'' \<rparr>
   \<and> isToken ''2025-06-18T08:00'' \<and> isToken ''2025-06-19''
   \<and> buildEventDateTimeInfo
        \<lparr> original = ''[[date:2025-06-18T08:00]]'', info_start = ''2025-06-18T08:00'',
          info_end = None \<rparr> ''Etc/UTC'' =
       Inr \<lparr> range_start = \<lparr> date = None, dateTime = Some ''2025-06-18T08:00:00'', timeZone = Some ''Etc/UTC'' \<rparr>,
             range_end = \<lparr> date = None, dateTime = Some ''2025-06-18T08:00:00'', timeZone = Some ''Etc/UTC'' \<rparr> \<rparr>
   \<and> buildEventDateTimeInfo
        \<lparr> original = ''[[date:2025-06-18T08:00/2025-06-19]]'', info_start = ''2025-06-18T08:00'',
          info_end = Some ''2025-06-19'' \<rparr> ''Etc/UTC'' =
       Inr \<lparr> range_start = \<lparr> date = None, dateTime = Some ''2025-06-18T08:00:00'', timeZone = Some ''Etc/UTC'' \<rparr>,
             range_end = \<lparr> date = Some ''2025-06-19'', dateTime = None, timeZone = Some ''Etc/UTC'' \<rparr> \<rparr>"
proof -
  have t1: "test TANA_DATE_TIME_REGEX ''2025-06-18T08:00''"
    by (simp add: test_def TANA_DATE_TIME_REGEX_def)
  have t2: "test TANA_DATE_REGEX ''2025-06-19''"
    by (simp add: test_def TANA_DATE_REGEX_def)
  have k1: "isToken ''2025-06-18T08:00''" using t1 by (simp add: isToken_def)
  have k2: "isToken ''2025-06-19''" using t2 by (simp add: isToken_def)
  note a = C5_time_builder [of "''2025-06-18T08:00''" "''Etc/UTC''"
      "\<lparr> original = ''[[date:2025-06-18T08:00]]'', info_start = ''2025-06-18T08:00'', info_end = None \<rparr>"
      "''2025-06-19''"]
  note b = C5_time_builder [of "''2025-06-19''" "''Etc/UTC''"
      "\<lparr> original = ''[[date:2025-06-18T08:00/2025-06-19]]'', info_start = ''2025-06-18T08:00'',
         info_end = Some ''2025-06-19'' \<rparr>"
      "''2025-06-19''"]
  show ?thesis using t1 t2 k1 k2 a b by auto
qed

text \<open>
  C6, as stated: every token that matches neither pattern makes the builder fail. The
  decomposition of \<open>[[date:2025-06-18/]]\<close> has the empty string as its end, which
  matches neither pattern, and the builder returns a range: it takes the empty string
  for an absent end.
\<close>

theorem C6_empty_end_counterexample:
  "info_end (extractTanaDateInfo ''[[date:2025-06-18/]]'') = Some []
   \<and> \<not> isToken []
   \<and> buildEventDateTimeInfo (extractTanaDateInfo ''[[date:2025-06-18/]]'') ''Etc/UTC'' =
       Inr \<lparr> range_start = \<lparr> date = Some ''2025-06-18'', dateTime = None, timeZone = Some ''Etc/UTC'' \<rparr>,
             range_end = \<lparr> date = Some ''2025-06-18'', dateTime = None, timeZone = Some ''Etc/UTC'' \<rparr> \<rparr>"
  by (simp add: buildEventDateTimeInfo_def createEventDateTime_def parser_defs)

text \<open>
  C6, amended. For every string that matches neither pattern the conversion of a token
  fails with the error \<open>Invalid date/time format:\<close> followed by the string, and gives no
  time point. The builder fails so when the start is such a string, and when the start is
  a token and the end is such a string and not empty. An empty end is read as no end.
\<close>

theorem C6_invalid_token_fails:
  "(\<not> isToken tok \<longrightarrow>
      createEventDateTime tz tok = Inl (Error (''Invalid date/time format: '' @ tok)))
   \<and> (\<not> isToken (info_start d) \<longrightarrow>
      buildEventDateTimeInfo d tz = Inl (Error (''Invalid date/time format: '' @ info_start d)))
   \<and> (isToken (info_start d) \<and> info_end d = Some e \<and> e \<noteq> [] \<and> \<not> isToken e \<longrightarrow>
      buildEventDateTimeInfo d tz = Inl (Error (''Invalid date/time format: '' @ e)))
   \<and> (info_end d = Some [] \<longrightarrow>
      buildEventDateTimeInfo d tz = buildEventDateTimeInfo (d\<lparr> info_end := None \<rparr>) tz)"
proof (intro conjI impI)
  assume "\<not> isToken tok"
  then show "createEventDateTime tz tok = Inl (Error (''Invalid date/time format: '' @ tok))"
    by (rule createEventDateTime_invalid)
next
  assume "\<not> isToken (info_start d)"
  then show "buildEventDateTimeInfo d tz = Inl (Error (''Invalid date/time format: '' @ info_start d))"
    by (simp add: buildEventDateTimeInfo_def createEventDateTime_invalid)
next
  assume a: "isToken (info_start d) \<and> info_end d = Some e \<and> e \<noteq> [] \<and> \<not> isToken e"
  then obtain p where "createEventDateTime tz (info_start d) = Inr p"
    using createEventDateTime_token by blast
  with a show "buildEventDateTimeInfo d tz = Inl (Error (''Invalid date/time format: '' @ e))"
    by (simp add: buildEventDateTimeInfo_def createEventDateTime_invalid)
next
  assume "info_end d = Some []"
  then show "buildEventDateTimeInfo d tz = buildEventDateTimeInfo (d\<lparr> info_end := None \<rparr>) tz"
    by (simp add: buildEventDateTimeInfo_def split: sum.splits)
qed

theorem C6_invalid_token_fails_witness:
  "\<not> isToken ''2025-06-18T08'' \<and> \<not> isToken ''tomorrow'' \<and> isToken ''2025-06-18''
   \<and> createEventDateTime ''Etc/UTC'' ''2025-06-18T08'' =
       Inl (Error ''Invalid date/time format: 2025-06-18T08'')
   \<and> buildEventDateTimeInfo
        \<lparr> original = ''[[date:2025-06-18T08]]'', info_start = ''2025-06-18T08'', info_end = None \<rparr>
        ''Etc/UTC'' = Inl (Error ''Invalid date/time format: 2025-06-18T08'')
   \<and> buildEventDateTimeInfo
        \<lparr> original = ''[[date:2025-06-18/tomorrow]]'', info_start = ''2025-06-18'',
          info_end = Some ''tomorrow'' \<rparr>
        ''Etc/UTC'' = Inl (Error ''Invalid date/time format: tomorrow'')"
proof -
  have n1: "\<not> isToken ''2025-06-18T08''" by (simp add: parser_defs)
  have n2: "\<not> isToken ''tomorrow''" by (simp add: parser_defs)
  have k: "isToken ''2025-06-18''" by (simp add: parser_defs)
  note a = C6_invalid_token_fails [of "''2025-06-18T08''" "''Etc/UTC''"
      "\<lparr> original = ''[[date:2025-06-18T08]]'', info_start = ''2025-06-18T08'', info_end = None \<rparr>"
      "''tomorrow''"]
  note b = C6_invalid_token_fails [of "''tomorrow''" "''Etc/UTC''"
      "\<lparr> original = ''[[date:2025-06-18/tomorrow]]'', info_start = ''2025-06-18'',
         info_end = Some ''tomorrow'' \<rparr>"
      "''tomorrow''"]
  show ?thesis using n1 n2 k a b by auto
qed

section \<open>Serializing the output\<close>

text \<open>A single selected field gets no newline.\<close>

lemma buildTanaPaste_single_field:
  "buildTanaPaste event calendarId [f] =
     (let v = (if property f = ''calendarId'' then Str calendarId
               else getProperty event (property f))
      in if truthy v then field f @ ''::'' @ toString v else [])"
  by (simp add: buildTanaPaste_def pasteStep_def enumerate_eq_zip Let_def)

text \<open>
  C1. The paste is to have one \<open>field::value\<close> line for each selected field with a
  truthy value, with a newline between lines and none at either end; the selection
  \<open>Event ID\<close>, \<open>Event URL\<close> over an event with id \<open>abc\<close> and an empty link is to give
  \<open>Event ID::abc\<close>. The newline is appended to every line whose field is not the last
  of the selection, so when the last field is left out the line before it keeps its
  newline: the paste is \<open>Event ID::abc\<close> followed by a newline.
\<close>

theorem C1_trailing_newline:
  "buildTanaPaste
     \<lparr> summary = None, description = None, location = None, event_id = Some ''abc'',
       htmlLink = Some [], event_start = None, event_end = None \<rparr>
     ''primary''
     [\<lparr> field = ''Event ID'', property = ''id'' \<rparr>,
      \<lparr> field = ''Event URL'', property = ''htmlLink'' \<rparr>]
   = ''Event ID::abc'' @ [CHR 0x0A]"
  by (simp add: buildTanaPaste_def pasteStep_def getProperty_def ofString_def enumerate_eq_zip)

theorem C1_trailing_newline_witness:
  "length (buildTanaPaste
     \<lparr> summary = None, description = None, location = None, event_id = Some ''abc'',
       htmlLink = Some [], event_start = None, event_end = None \<rparr>
     ''primary''
     [\<lparr> field = ''Event ID'', property = ''id'' \<rparr>,
      \<lparr> field = ''Event URL'', property = ''htmlLink'' \<rparr>]) = 14"
  using C1_trailing_newline by simp

section \<open>Facts about the update\<close>

lemma mergeFields_ends:
  "event_start (mergeFields ev d) = event_start ev \<and> event_end (mergeFields ev d) = event_end ev"
  by (simp add: mergeFields_def Let_def)

lemma mergeFields_name_only:
  "data_description d = None \<Longrightarrow> data_location d = None \<Longrightarrow> data_name d = Some n \<Longrightarrow>
   mergeFields ev d = ev\<lparr> summary := Some n \<rparr>"
  by (auto simp add: mergeFields_def Let_def)

lemma mergeDate_start:
  "event_start (mergeDate ev r u) =
     (if differs (range_start r) (event_start ev) then Some (range_start r) else event_start u)"
  by (simp add: mergeDate_def Let_def)

lemma mergeDate_end:
  "event_end (mergeDate ev r u) =
     (if differs (range_start r) (event_start ev) \<or> differs (range_end r) (event_end ev)
      then Some (range_end r) else event_end u)"
  by (simp add: mergeDate_def Let_def)

lemma mergeDate_rest:
  "summary (mergeDate ev r u) = summary u \<and> description (mergeDate ev r u) = description u
   \<and> location (mergeDate ev r u) = location u"
  by (simp add: mergeDate_def Let_def)

lemma submitUpdate_calls:
  "mergeEventData event d = Inr u \<Longrightarrow>
   calls (submitUpdate gc tok cal ev d opts event s cs) = cs @ [UpdateEvent tok cal ev u]"
  by (simp add: submitUpdate_def Let_def split: prod.splits sum.splits)

lemma applyUpdate_calls:
  "hasFieldsToUpdate d \<Longrightarrow> mergeEventData (Some e) d = Inr u \<Longrightarrow>
   calls (applyUpdate gc tok cal ev d opts (Some e) s cs) = cs @ [UpdateEvent tok cal ev u]"
  by (simp add: applyUpdate_def submitUpdate_calls)

lemma updateEvent_no_move:
  "getEvent gc tok from ev s0 = (Inr (Some e), s1) \<Longrightarrow> moveTarget from toCal = None \<Longrightarrow>
   updateEvent gc tok from ev d opts toCal s0 =
     applyUpdate gc tok from ev d opts (Some e) s1 [GetEvent tok from ev]"
  by (simp add: updateEvent_def)

lemma updateEvent_move:
  "getEvent gc tok from ev s0 = (Inr (Some e), s1) \<Longrightarrow> moveTarget from toCal = Some t \<Longrightarrow>
   moveEventToAnotherCalendar gc tok from ev t s1 = (Inr moved, s2) \<Longrightarrow>
   updateEvent gc tok from ev d opts toCal s0 =
     applyUpdate gc tok t ev d opts moved s2 [GetEvent tok from ev, MoveEvent tok from ev t]"
  by (simp add: updateEvent_def)

lemma updateEvent_refetch:
  "getEvent gc tok from ev s0 = (Inr (Some e), s1) \<Longrightarrow> moveTarget from toCal = Some t \<Longrightarrow>
   moveEventToAnotherCalendar gc tok from ev t s1 = (Inr None, s2) \<Longrightarrow>
   hasFieldsToUpdate d \<Longrightarrow> getEvent gc tok t ev s2 = (Inr (Some e'), s3) \<Longrightarrow>
   mergeEventData (Some e') d = Inr u \<Longrightarrow>
   calls (updateEvent gc tok from ev d opts toCal s0) =
     [GetEvent tok from ev, MoveEvent tok from ev t, GetEvent tok t ev, UpdateEvent tok t ev u]"
  by (simp add: updateEvent_move applyUpdate_def submitUpdate_calls)

lemma moveTarget_None: "toCal = None \<or> toCal = Some from \<Longrightarrow> moveTarget from toCal = None"
  by (auto simp: moveTarget_def)

lemmas builder_defs = buildEventDateTimeInfo_def createEventDateTime_def parser_defs

lemma singleEventCalendar_get:
  "getEvent singleEventCalendar tok cal ev s = (Inr s, s)"
  by (simp add: singleEventCalendar_def)

lemma singleEventCalendar_move:
  "moveEventToAnotherCalendar singleEventCalendar tok cal ev t s = (Inr s, s)"
  by (simp add: singleEventCalendar_def)

section \<open>The update, call by call\<close>

text \<open>
  C7. When the fetch from the source calendar gives no event, the update fails with the
  error \<open>Event not found:\<close> followed by the event id, and the fetch is the only call
  made: no move, no merge and no update reach the calendar.
\<close>

theorem C7_missing_event_aborts:
  "getEvent gc accessToken fromCalendarId eventId s0 = (Inr None, s1) \<Longrightarrow>
   updateEvent gc accessToken fromCalendarId eventId d options toCalendarId s0 =
     \<lparr> result = Inl (Error (''Event not found: '' @ eventId)), backend = s1,
       calls = [GetEvent accessToken fromCalendarId eventId] \<rparr>"
  by (simp add: updateEvent_def)

theorem C7_missing_event_aborts_witness:
  "getEvent singleEventCalendar ''token'' ''primary'' ''abc'' None = (Inr None, None)
   \<and> updateEvent singleEventCalendar ''token'' ''primary'' ''abc''
        (noChanges\<lparr> data_name := Some ''Retro'' \<rparr>) DEFAULT_OPTIONS (Some ''work'') None =
     \<lparr> result = Inl (Error ''Event not found: abc''), backend = None,
       calls = [GetEvent ''token'' ''primary'' ''abc''] \<rparr>"
proof -
  have g: "getEvent singleEventCalendar ''token'' ''primary'' ''abc'' None = (Inr None, None)"
    by (simp add: singleEventCalendar_def)
  show ?thesis
    using g C7_missing_event_aborts [OF g, of "noChanges\<lparr> data_name := Some ''Retro'' \<rparr>"
        DEFAULT_OPTIONS "Some ''work''"]
    by simp
qed

text \<open>
  C8. With no field to change, and no destination calendar or the source as destination,
  the fetch is the only call, the calendar is left as the fetch left it, and the update
  returns the paste over the fetched event in the source calendar.
\<close>

theorem C8_empty_update_only_fetches:
  assumes "getEvent gc accessToken fromCalendarId eventId s0 = (Inr (Some fetched), s1)"
    and "d = \<lparr> data_name = None, data_date = None, data_description = None,
               data_timeZone = None, data_location = None \<rparr>"
    and "toCalendarId = None \<or> toCalendarId = Some fromCalendarId"
  shows "updateEvent gc accessToken fromCalendarId eventId d options toCalendarId s0 =
     \<lparr> result = Inr (buildTanaPaste fetched fromCalendarId (fieldsToReturn options)),
       backend = s1, calls = [GetEvent accessToken fromCalendarId eventId] \<rparr>"
proof -
  have "moveTarget fromCalendarId toCalendarId = None"
    using assms(3) by (rule moveTarget_None)
  moreover have "\<not> hasFieldsToUpdate d"
    using assms(2) by (simp add: hasFieldsToUpdate_def)
  ultimately show ?thesis
    using assms(1) by (simp add: updateEvent_no_move applyUpdate_def pasteOf_def)
qed

lemmas paste_defs =
  buildTanaPaste_def pasteStep_def getProperty_def ofString_def ofObject_def enumerate_eq_zip

theorem C8_empty_update_only_fetches_witness:
  "updateEvent singleEventCalendar ''token'' ''primary'' ''abc'' noChanges DEFAULT_OPTIONS
      (Some ''primary'') (Some tokyoEvent) =
     \<lparr> result = Inr (''Event URL::https://calendar.example/abc'' @ [CHR 0x0A] @
                      ''Event ID::abc'' @ [CHR 0x0A] @ ''Synced Calendar ID::primary''),
       backend = Some tokyoEvent, calls = [GetEvent ''token'' ''primary'' ''abc''] \<rparr>"
proof -
  have g: "getEvent singleEventCalendar ''token'' ''primary'' ''abc'' (Some tokyoEvent)
             = (Inr (Some tokyoEvent), Some tokyoEvent)"
    by (simp add: singleEventCalendar_def)
  have p: "buildTanaPaste tokyoEvent ''primary'' (fieldsToReturn DEFAULT_OPTIONS) =
      ''Event URL::https://calendar.example/abc'' @ [CHR 0x0A] @
                      ''Event ID::abc'' @ [CHR 0x0A] @ ''Synced Calendar ID::primary''"
    by (simp add: paste_defs DEFAULT_OPTIONS_def DEFAULT_FIELDS_TO_RETURN_def tokyoEvent_def)
  show ?thesis
    using C8_empty_update_only_fetches [OF g, of noChanges "Some ''primary''" DEFAULT_OPTIONS] p
    by (simp add: noChanges_def)
qed

section \<open>The merge\<close>

lemma mergeEventData_name_only:
  "d = \<lparr> data_name = Some n, data_date = None, data_description = None,
          data_timeZone = None, data_location = None \<rparr> \<Longrightarrow>
   mergeEventData (Some ev) d = Inr (ev\<lparr> summary := Some n \<rparr>)"
  by (simp add: mergeEventData_def mergeFields_name_only)

text \<open>
  C9. When the name is the only field to change, the event submitted to the calendar is
  the event in hand with the new title: its start, end, location and description are
  those of the event in hand. The event in hand is the fetched one when nothing moves,
  and the one the move returned when the event moves.
\<close>

theorem C9_name_only_update:
  assumes "getEvent gc accessToken fromCalendarId eventId s0 = (Inr (Some fetched), s1)"
    and "d = \<lparr> data_name = Some n, data_date = None, data_description = None,
               data_timeZone = None, data_location = None \<rparr>"
  shows "(moveTarget fromCalendarId toCalendarId = None \<longrightarrow>
            (\<exists>r. calls (updateEvent gc accessToken fromCalendarId eventId d options toCalendarId s0) =
                    [GetEvent accessToken fromCalendarId eventId,
                     UpdateEvent accessToken fromCalendarId eventId r]
                \<and> r = fetched\<lparr> summary := Some n \<rparr>
                \<and> event_start r = event_start fetched \<and> event_end r = event_end fetched
                \<and> location r = location fetched \<and> description r = description fetched))
       \<and> (\<forall>t moved s2.
            moveTarget fromCalendarId toCalendarId = Some t
            \<and> moveEventToAnotherCalendar gc accessToken fromCalendarId eventId t s1 =
                (Inr (Some moved), s2) \<longrightarrow>
            (\<exists>r. calls (updateEvent gc accessToken fromCalendarId eventId d options toCalendarId s0) =
                    [GetEvent accessToken fromCalendarId eventId,
                     MoveEvent accessToken fromCalendarId eventId t,
                     UpdateEvent accessToken t eventId r]
                \<and> r = moved\<lparr> summary := Some n \<rparr>
                \<and> event_start r = event_start moved \<and> event_end r = event_end moved
                \<and> location r = location moved \<and> description r = description moved))"
proof -
  have h: "hasFieldsToUpdate d"
    using assms(2) by (simp add: hasFieldsToUpdate_def)
  have m: "\<And>ev. mergeEventData (Some ev) d = Inr (ev\<lparr> summary := Some n \<rparr>)"
    using assms(2) by (rule mergeEventData_name_only)
  show ?thesis
  proof (intro conjI impI allI)
    assume "moveTarget fromCalendarId toCalendarId = None"
    then have "calls (updateEvent gc accessToken fromCalendarId eventId d options toCalendarId s0) =
        [GetEvent accessToken fromCalendarId eventId,
         UpdateEvent accessToken fromCalendarId eventId (fetched\<lparr> summary := Some n \<rparr>)]"
      using assms(1) h m by (simp add: updateEvent_no_move applyUpdate_calls)
    then show "\<exists>r. calls (updateEvent gc accessToken fromCalendarId eventId d options toCalendarId s0) =
                    [GetEvent accessToken fromCalendarId eventId,
                     UpdateEvent accessToken fromCalendarId eventId r]
                \<and> r = fetched\<lparr> summary := Some n \<rparr>
                \<and> event_start r = event_start fetched \<and> event_end r = event_end fetched
                \<and> location r = location fetched \<and> description r = description fetched"
      by simp
  next
    fix t moved s2
    assume "moveTarget fromCalendarId toCalendarId = Some t
            \<and> moveEventToAnotherCalendar gc accessToken fromCalendarId eventId t s1 =
                (Inr (Some moved), s2)"
    then have "calls (updateEvent gc accessToken fromCalendarId eventId d options toCalendarId s0) =
        [GetEvent accessToken fromCalendarId eventId,
         MoveEvent accessToken fromCalendarId eventId t,
         UpdateEvent accessToken t eventId (moved\<lparr> summary := Some n \<rparr>)]"
      using assms(1) h m by (simp add: updateEvent_move applyUpdate_calls)
    then show "\<exists>r. calls (updateEvent gc accessToken fromCalendarId eventId d options toCalendarId s0) =
                    [GetEvent accessToken fromCalendarId eventId,
                     MoveEvent accessToken fromCalendarId eventId t,
                     UpdateEvent accessToken t eventId r]
                \<and> r = moved\<lparr> summary := Some n \<rparr>
                \<and> event_start r = event_start moved \<and> event_end r = event_end moved
                \<and> location r = location moved \<and> description r = description moved"
      by simp
  qed
qed

theorem C9_name_only_update_witness:
  "calls (updateEvent singleEventCalendar ''token'' ''primary'' ''abc''
            (noChanges\<lparr> data_name := Some ''Retro'' \<rparr>) DEFAULT_OPTIONS None (Some tokyoEvent)) =
     [GetEvent ''token'' ''primary'' ''abc'',
      UpdateEvent ''token'' ''primary'' ''abc'' (tokyoEvent\<lparr> summary := Some ''Retro'' \<rparr>)]
   \<and> calls (updateEvent singleEventCalendar ''token'' ''primary'' ''abc''
            (noChanges\<lparr> data_name := Some ''Retro'' \<rparr>) DEFAULT_OPTIONS (Some ''work'') (Some tokyoEvent)) =
     [GetEvent ''token'' ''primary'' ''abc'',
      MoveEvent ''token'' ''primary'' ''abc'' ''work'',
      UpdateEvent ''token'' ''work'' ''abc'' (tokyoEvent\<lparr> summary := Some ''Retro'' \<rparr>)]"
proof -
  have g: "getEvent singleEventCalendar ''token'' ''primary'' ''abc'' (Some tokyoEvent)
             = (Inr (Some tokyoEvent), Some tokyoEvent)"
    by (simp add: singleEventCalendar_def)
  have mv: "moveEventToAnotherCalendar singleEventCalendar ''token'' ''primary'' ''abc'' ''work''
              (Some tokyoEvent) = (Inr (Some tokyoEvent), Some tokyoEvent)"
    by (simp add: singleEventCalendar_def)
  have d: "noChanges\<lparr> data_name := Some ''Retro'' \<rparr> =
      \<lparr> data_name = Some ''Retro'', data_date = None, data_description = None,
        data_timeZone = None, data_location = None \<rparr>"
    by (simp add: noChanges_def)
  have t1: "moveTarget ''primary'' None = None" by (simp add: moveTarget_def)
  have t2: "moveTarget ''primary'' (Some ''work'') = Some ''work''" by (simp add: moveTarget_def)
  note a = C9_name_only_update [OF g d, where toCalendarId = None and options = DEFAULT_OPTIONS,
      THEN conjunct1, rule_format, OF t1]
  note b = C9_name_only_update [OF g d, where toCalendarId = "Some ''work''" and options = DEFAULT_OPTIONS, THEN conjunct2,
      rule_format, OF conjI [OF t2 mv]]
  show ?thesis using a b by auto
qed

lemma differs_timeZone:
  "differs (p\<lparr> timeZone := z \<rparr>) (map_option (\<lambda>q. q\<lparr> timeZone := z' \<rparr>) current) = differs p current"
  by (cases current) (simp_all add: differs_def)

lemma hasFieldsToUpdate_date: "data_date d = Some dateInfo \<Longrightarrow> hasFieldsToUpdate d"
  by (simp add: hasFieldsToUpdate_def)

lemma mergeEventData_date:
  "data_date d = Some dateInfo \<Longrightarrow> buildEventDateTimeInfo dateInfo (timeZoneOf d) = Inr r \<Longrightarrow>
   mergeEventData (Some ev) d = Inr (mergeDate ev r (mergeFields ev d))"
  by (simp add: mergeEventData_def)

lemma merged_start:
  "event_start (mergeDate ev r (mergeFields ev d)) =
     (if differs (range_start r) (event_start ev) then Some (range_start r) else event_start ev)"
  by (simp add: mergeDate_start mergeFields_ends)

lemma merged_end:
  "event_end (mergeDate ev r (mergeFields ev d)) =
     (if differs (range_start r) (event_start ev) \<or> differs (range_end r) (event_end ev)
      then Some (range_end r) else event_end ev)"
  by (simp add: mergeDate_end mergeFields_ends)

lemma date_update_calls_no_move:
  assumes "getEvent gc accessToken fromCalendarId eventId s0 = (Inr (Some fetched), s1)"
    and "data_date d = Some dateInfo"
    and "buildEventDateTimeInfo dateInfo (timeZoneOf d) = Inr rebuilt"
    and "moveTarget fromCalendarId toCalendarId = None"
  shows "calls (updateEvent gc accessToken fromCalendarId eventId d options toCalendarId s0) =
     [GetEvent accessToken fromCalendarId eventId,
      UpdateEvent accessToken fromCalendarId eventId (mergeDate fetched rebuilt (mergeFields fetched d))]"
  using assms
  by (simp add: updateEvent_no_move applyUpdate_calls hasFieldsToUpdate_date mergeEventData_date)

lemma date_update_calls_move:
  assumes "getEvent gc accessToken fromCalendarId eventId s0 = (Inr (Some fetched), s1)"
    and "data_date d = Some dateInfo"
    and "buildEventDateTimeInfo dateInfo (timeZoneOf d) = Inr rebuilt"
    and "moveTarget fromCalendarId toCalendarId = Some t"
    and "moveEventToAnotherCalendar gc accessToken fromCalendarId eventId t s1 = (Inr (Some moved), s2)"
  shows "calls (updateEvent gc accessToken fromCalendarId eventId d options toCalendarId s0) =
     [GetEvent accessToken fromCalendarId eventId,
      MoveEvent accessToken fromCalendarId eventId t,
      UpdateEvent accessToken t eventId (mergeDate moved rebuilt (mergeFields moved d))]"
  using assms
  by (simp add: updateEvent_move applyUpdate_calls hasFieldsToUpdate_date mergeEventData_date)

text \<open>
  C10. The test that decides whether an end of the range is replaced reads the
  \<open>dateTime\<close> and \<open>date\<close> of both sides and never the time zone. So when a date is
  supplied and the rebuilt start and end have the \<open>dateTime\<close> and \<open>date\<close> of the event
  in hand, the submitted event keeps the start and end it had, whatever the time zone
  of the request: a change of time zone alone is dropped.
\<close>

theorem C10_time_zone_not_compared:
  assumes "getEvent gc accessToken fromCalendarId eventId s0 = (Inr (Some fetched), s1)"
    and "data_date d = Some dateInfo"
    and "buildEventDateTimeInfo dateInfo (timeZoneOf d) = Inr rebuilt"
  shows "differs (p\<lparr> timeZone := z \<rparr>) (map_option (\<lambda>q. q\<lparr> timeZone := z' \<rparr>) current) =
           differs p current
       \<and> (moveTarget fromCalendarId toCalendarId = None
            \<and> \<not> differs (range_start rebuilt) (event_start fetched)
            \<and> \<not> differs (range_end rebuilt) (event_end fetched) \<longrightarrow>
            (\<exists>r. calls (updateEvent gc accessToken fromCalendarId eventId d options toCalendarId s0) =
                    [GetEvent accessToken fromCalendarId eventId,
                     UpdateEvent accessToken fromCalendarId eventId r]
                \<and> event_start r = event_start fetched \<and> event_end r = event_end fetched))
       \<and> (\<forall>t moved s2.
            moveTarget fromCalendarId toCalendarId = Some t
            \<and> moveEventToAnotherCalendar gc accessToken fromCalendarId eventId t s1 =
                (Inr (Some moved), s2)
            \<and> \<not> differs (range_start rebuilt) (event_start moved)
            \<and> \<not> differs (range_end rebuilt) (event_end moved) \<longrightarrow>
            (\<exists>r. calls (updateEvent gc accessToken fromCalendarId eventId d options toCalendarId s0) =
                    [GetEvent accessToken fromCalendarId eventId,
                     MoveEvent accessToken fromCalendarId eventId t,
                     UpdateEvent accessToken t eventId r]
                \<and> event_start r = event_start moved \<and> event_end r = event_end moved))"
proof (intro conjI impI allI)
  show "differs (p\<lparr> timeZone := z \<rparr>) (map_option (\<lambda>q. q\<lparr> timeZone := z' \<rparr>) current) =
          differs p current"
    by (rule differs_timeZone)
next
  assume a: "moveTarget fromCalendarId toCalendarId = None
            \<and> \<not> differs (range_start rebuilt) (event_start fetched)
            \<and> \<not> differs (range_end rebuilt) (event_end fetched)"
  let ?r = "mergeDate fetched rebuilt (mergeFields fetched d)"
  have "calls (updateEvent gc accessToken fromCalendarId eventId d options toCalendarId s0) =
      [GetEvent accessToken fromCalendarId eventId, UpdateEvent accessToken fromCalendarId eventId ?r]"
    using assms a by (simp add: date_update_calls_no_move)
  moreover have "event_start ?r = event_start fetched \<and> event_end ?r = event_end fetched"
    using a by (simp add: merged_start merged_end)
  ultimately show "\<exists>r. calls (updateEvent gc accessToken fromCalendarId eventId d options toCalendarId s0) =
                    [GetEvent accessToken fromCalendarId eventId,
                     UpdateEvent accessToken fromCalendarId eventId r]
                \<and> event_start r = event_start fetched \<and> event_end r = event_end fetched"
    by blast
next
  fix t moved s2
  assume a: "moveTarget fromCalendarId toCalendarId = Some t
            \<and> moveEventToAnotherCalendar gc accessToken fromCalendarId eventId t s1 =
                (Inr (Some moved), s2)
            \<and> \<not> differs (range_start rebuilt) (event_start moved)
            \<and> \<not> differs (range_end rebuilt) (event_end moved)"
  let ?r = "mergeDate moved rebuilt (mergeFields moved d)"
  have "calls (updateEvent gc accessToken fromCalendarId eventId d options toCalendarId s0) =
      [GetEvent accessToken fromCalendarId eventId, MoveEvent accessToken fromCalendarId eventId t,
       UpdateEvent accessToken t eventId ?r]"
    using assms a by (simp add: date_update_calls_move)
  moreover have "event_start ?r = event_start moved \<and> event_end ?r = event_end moved"
    using a by (simp add: merged_start merged_end)
  ultimately show "\<exists>r. calls (updateEvent gc accessToken fromCalendarId eventId d options toCalendarId s0) =
                    [GetEvent accessToken fromCalendarId eventId,
                     MoveEvent accessToken fromCalendarId eventId t,
                     UpdateEvent accessToken t eventId r]
                \<and> event_start r = event_start moved \<and> event_end r = event_end moved"
    by blast
qed

theorem C10_time_zone_not_compared_witness:
  "buildEventDateTimeInfo (extractTanaDateInfo ''[[date:2025-06-18/2025-06-19]]'') ''Etc/UTC'' =
     Inr \<lparr> range_start = \<lparr> date = Some ''2025-06-18'', dateTime = None, timeZone = Some ''Etc/UTC'' \<rparr>,
           range_end = \<lparr> date = Some ''2025-06-19'', dateTime = None, timeZone = Some ''Etc/UTC'' \<rparr> \<rparr>
   \<and> (\<exists>r. calls (updateEvent singleEventCalendar ''token'' ''primary'' ''abc''
                 (noChanges\<lparr> data_date := Some (extractTanaDateInfo ''[[date:2025-06-18/2025-06-19]]''),
                              data_timeZone := Some ''Etc/UTC'' \<rparr>)
                 DEFAULT_OPTIONS None (Some tokyoEvent)) =
              [GetEvent ''token'' ''primary'' ''abc'', UpdateEvent ''token'' ''primary'' ''abc'' r]
          \<and> event_start r =
              Some \<lparr> date = Some ''2025-06-18'', dateTime = None, timeZone = Some ''Asia/Tokyo'' \<rparr>
          \<and> event_end r =
              Some \<lparr> date = Some ''2025-06-19'', dateTime = None, timeZone = Some ''Asia/Tokyo'' \<rparr>)
   \<and> (\<exists>r. calls (updateEvent singleEventCalendar ''token'' ''primary'' ''abc''
                 (noChanges\<lparr> data_date := Some (extractTanaDateInfo ''[[date:2025-06-18/2025-06-19]]''),
                              data_timeZone := Some ''Etc/UTC'' \<rparr>)
                 DEFAULT_OPTIONS (Some ''work'') (Some tokyoEvent)) =
              [GetEvent ''token'' ''primary'' ''abc'', MoveEvent ''token'' ''primary'' ''abc'' ''work'',
               UpdateEvent ''token'' ''work'' ''abc'' r]
          \<and> event_start r =
              Some \<lparr> date = Some ''2025-06-18'', dateTime = None, timeZone = Some ''Asia/Tokyo'' \<rparr>
          \<and> event_end r =
              Some \<lparr> date = Some ''2025-06-19'', dateTime = None, timeZone = Some ''Asia/Tokyo'' \<rparr>)"
proof -
  let ?d = "noChanges\<lparr> data_date := Some (extractTanaDateInfo ''[[date:2025-06-18/2025-06-19]]''),
                       data_timeZone := Some ''Etc/UTC'' \<rparr>"
  let ?rebuilt =
    "\<lparr> range_start = \<lparr> date = Some ''2025-06-18'', dateTime = None, timeZone = Some ''Etc/UTC'' \<rparr>,
       range_end = \<lparr> date = Some ''2025-06-19'', dateTime = None, timeZone = Some ''Etc/UTC'' \<rparr> \<rparr>"
  have g: "getEvent singleEventCalendar ''token'' ''primary'' ''abc'' (Some tokyoEvent)
             = (Inr (Some tokyoEvent), Some tokyoEvent)"
    by (rule singleEventCalendar_get)
  have mv: "moveEventToAnotherCalendar singleEventCalendar ''token'' ''primary'' ''abc'' ''work''
              (Some tokyoEvent) = (Inr (Some tokyoEvent), Some tokyoEvent)"
    by (rule singleEventCalendar_move)
  have dd: "data_date ?d = Some (extractTanaDateInfo ''[[date:2025-06-18/2025-06-19]]'')"
    by simp
  have tz: "timeZoneOf ?d = ''Etc/UTC''"
    by (simp add: timeZoneOf_def)
  have b0: "buildEventDateTimeInfo (extractTanaDateInfo ''[[date:2025-06-18/2025-06-19]]'') ''Etc/UTC''
      = Inr ?rebuilt"
    by (simp add: builder_defs)
  have b: "buildEventDateTimeInfo (extractTanaDateInfo ''[[date:2025-06-18/2025-06-19]]'') (timeZoneOf ?d)
      = Inr ?rebuilt"
    using b0 tz by simp
  have t1: "moveTarget ''primary'' None = None" by (simp add: moveTarget_def)
  have t2: "moveTarget ''primary'' (Some ''work'') = Some ''work''" by (simp add: moveTarget_def)
  have n1: "\<not> differs (range_start ?rebuilt) (event_start tokyoEvent)"
    by (simp add: differs_def tokyoEvent_def)
  have n2: "\<not> differs (range_end ?rebuilt) (event_end tokyoEvent)"
    by (simp add: differs_def tokyoEvent_def)
  have s: "event_start tokyoEvent =
      Some \<lparr> date = Some ''2025-06-18'', dateTime = None, timeZone = Some ''Asia/Tokyo'' \<rparr>"
    by (simp add: tokyoEvent_def)
  have e: "event_end tokyoEvent =
      Some \<lparr> date = Some ''2025-06-19'', dateTime = None, timeZone = Some ''Asia/Tokyo'' \<rparr>"
    by (simp add: tokyoEvent_def)
  note a1 = C10_time_zone_not_compared [OF g dd b, where toCalendarId = None and options = DEFAULT_OPTIONS,
      THEN conjunct2, THEN conjunct1, rule_format, OF conjI [OF t1 conjI [OF n1 n2]]]
  note a2 = C10_time_zone_not_compared [OF g dd b, where toCalendarId = "Some ''work''"
      and options = DEFAULT_OPTIONS,
      THEN conjunct2, THEN conjunct2, rule_format, OF conjI [OF t2 conjI [OF mv conjI [OF n1 n2]]]]
  show ?thesis using b0 a1 a2 unfolding s e by blast
qed

text \<open>
  C2, as stated: the two ends are replaced independently, so that when only one end
  changed the other is submitted as it was fetched. The event is fetched with the range
  18 to 19 June in the time zone of Tokyo, and the request moves the start to 17 June
  and names no time zone: the end is submitted with the same date and the default time
  zone, not as it was fetched.
\<close>

theorem C2_start_change_rewrites_end_counterexample:
  "info_end (extractTanaDateInfo ''[[date:2025-06-17/2025-06-19]]'') = Some ''2025-06-19''
   \<and> Option.bind (event_end tokyoEvent) date = Some ''2025-06-19''
   \<and> calls (updateEvent singleEventCalendar ''token'' ''primary'' ''abc''
              (noChanges\<lparr> data_date := Some (extractTanaDateInfo ''[[date:2025-06-17/2025-06-19]]'') \<rparr>)
              DEFAULT_OPTIONS None (Some tokyoEvent)) =
       [GetEvent ''token'' ''primary'' ''abc'',
        UpdateEvent ''token'' ''primary'' ''abc''
          (tokyoEvent\<lparr>
             event_start := Some \<lparr> date = Some ''2025-06-17'', dateTime = None, timeZone = Some ''Etc/UTC'' \<rparr>,
             event_end := Some \<lparr> date = Some ''2025-06-19'', dateTime = None, timeZone = Some ''Etc/UTC'' \<rparr> \<rparr>)]
   \<and> Some \<lparr> date = Some ''2025-06-19'', dateTime = None, timeZone = Some ''Etc/UTC'' \<rparr>
       \<noteq> event_end tokyoEvent"
proof -
  let ?d = "noChanges\<lparr> data_date := Some (extractTanaDateInfo ''[[date:2025-06-17/2025-06-19]]'') \<rparr>"
  let ?rebuilt =
    "\<lparr> range_start = \<lparr> date = Some ''2025-06-17'', dateTime = None, timeZone = Some ''Etc/UTC'' \<rparr>,
       range_end = \<lparr> date = Some ''2025-06-19'', dateTime = None, timeZone = Some ''Etc/UTC'' \<rparr> \<rparr>"
  have g: "getEvent singleEventCalendar ''token'' ''primary'' ''abc'' (Some tokyoEvent)
             = (Inr (Some tokyoEvent), Some tokyoEvent)"
    by (rule singleEventCalendar_get)
  have dd: "data_date ?d = Some (extractTanaDateInfo ''[[date:2025-06-17/2025-06-19]]'')"
    by simp
  have tz: "timeZoneOf ?d = ''Etc/UTC''"
    by (simp add: timeZoneOf_def noChanges_def)
  have b: "buildEventDateTimeInfo (extractTanaDateInfo ''[[date:2025-06-17/2025-06-19]]'') (timeZoneOf ?d)
      = Inr ?rebuilt"
    unfolding tz by (simp add: builder_defs)
  have t1: "moveTarget ''primary'' None = None" by (simp add: moveTarget_def)
  have m: "mergeDate tokyoEvent ?rebuilt (mergeFields tokyoEvent ?d) =
      tokyoEvent\<lparr>
         event_start := Some \<lparr> date = Some ''2025-06-17'', dateTime = None, timeZone = Some ''Etc/UTC'' \<rparr>,
         event_end := Some \<lparr> date = Some ''2025-06-19'', dateTime = None, timeZone = Some ''Etc/UTC'' \<rparr> \<rparr>"
    by (simp add: mergeDate_def mergeFields_def differs_def noChanges_def tokyoEvent_def Let_def)
  have c: "calls (updateEvent singleEventCalendar ''token'' ''primary'' ''abc'' ?d
              DEFAULT_OPTIONS None (Some tokyoEvent)) =
       [GetEvent ''token'' ''primary'' ''abc'',
        UpdateEvent ''token'' ''primary'' ''abc'' (mergeDate tokyoEvent ?rebuilt (mergeFields tokyoEvent ?d))]"
    by (rule date_update_calls_no_move [OF g dd b t1])
  have i: "info_end (extractTanaDateInfo ''[[date:2025-06-17/2025-06-19]]'') = Some ''2025-06-19''"
    by (simp add: parser_defs)
  have f: "Option.bind (event_end tokyoEvent) date = Some ''2025-06-19''"
    by (simp add: tokyoEvent_def)
  have n: "Some \<lparr> date = Some ''2025-06-19'', dateTime = None, timeZone = Some ''Etc/UTC'' \<rparr>
       \<noteq> event_end tokyoEvent"
    by (simp add: tokyoEvent_def)
  show ?thesis using i f n c unfolding m by simp
qed

text \<open>
  C2, amended. When a date is supplied, the rebuilt start replaces the start exactly when
  its \<open>dateTime\<close> or \<open>date\<close> differs from the start of the event in hand, and the
  rebuilt end replaces the end exactly when the start is replaced or the \<open>dateTime\<close> or
  \<open>date\<close> of the rebuilt end differs from the end of the event in hand. So a change of
  the end alone leaves the start as it was, and a change of the start rewrites the end
  with it.
\<close>

theorem C2_start_change_rewrites_end:
  assumes "getEvent gc accessToken fromCalendarId eventId s0 = (Inr (Some fetched), s1)"
    and "data_date d = Some dateInfo"
    and "buildEventDateTimeInfo dateInfo (timeZoneOf d) = Inr rebuilt"
  shows "(moveTarget fromCalendarId toCalendarId = None \<longrightarrow>
            (\<exists>r. calls (updateEvent gc accessToken fromCalendarId eventId d options toCalendarId s0) =
                    [GetEvent accessToken fromCalendarId eventId,
                     UpdateEvent accessToken fromCalendarId eventId r]
                \<and> event_start r =
                    (if differs (range_start rebuilt) (event_start fetched)
                     then Some (range_start rebuilt) else event_start fetched)
                \<and> event_end r =
                    (if differs (range_start rebuilt) (event_start fetched)
                        \<or> differs (range_end rebuilt) (event_end fetched)
                     then Some (range_end rebuilt) else event_end fetched)))
       \<and> (\<forall>t moved s2.
            moveTarget fromCalendarId toCalendarId = Some t
            \<and> moveEventToAnotherCalendar gc accessToken fromCalendarId eventId t s1 =
                (Inr (Some moved), s2) \<longrightarrow>
            (\<exists>r. calls (updateEvent gc accessToken fromCalendarId eventId d options toCalendarId s0) =
                    [GetEvent accessToken fromCalendarId eventId,
                     MoveEvent accessToken fromCalendarId eventId t,
                     UpdateEvent accessToken t eventId r]
                \<and> event_start r =
                    (if differs (range_start rebuilt) (event_start moved)
                     then Some (range_start rebuilt) else event_start moved)
                \<and> event_end r =
                    (if differs (range_start rebuilt) (event_start moved)
                        \<or> differs (range_end rebuilt) (event_end moved)
                     then Some (range_end rebuilt) else event_end moved)))"
proof (intro conjI impI allI)
  assume a: "moveTarget fromCalendarId toCalendarId = None"
  let ?r = "mergeDate fetched rebuilt (mergeFields fetched d)"
  have "calls (updateEvent gc accessToken fromCalendarId eventId d options toCalendarId s0) =
      [GetEvent accessToken fromCalendarId eventId, UpdateEvent accessToken fromCalendarId eventId ?r]"
    using assms a by (simp add: date_update_calls_no_move)
  then show "\<exists>r. calls (updateEvent gc accessToken fromCalendarId eventId d options toCalendarId s0) =
                    [GetEvent accessToken fromCalendarId eventId,
                     UpdateEvent accessToken fromCalendarId eventId r]
                \<and> event_start r =
                    (if differs (range_start rebuilt) (event_start fetched)
                     then Some (range_start rebuilt) else event_start fetched)
                \<and> event_end r =
                    (if differs (range_start rebuilt) (event_start fetched)
                        \<or> differs (range_end rebuilt) (event_end fetched)
                     then Some (range_end rebuilt) else event_end fetched)"
    using merged_start [of fetched rebuilt d] merged_end [of fetched rebuilt d] by blast
next
  fix t moved s2
  assume a: "moveTarget fromCalendarId toCalendarId = Some t
            \<and> moveEventToAnotherCalendar gc accessToken fromCalendarId eventId t s1 =
                (Inr (Some moved), s2)"
  let ?r = "mergeDate moved rebuilt (mergeFields moved d)"
  have "calls (updateEvent gc accessToken fromCalendarId eventId d options toCalendarId s0) =
      [GetEvent accessToken fromCalendarId eventId, MoveEvent accessToken fromCalendarId eventId t,
       UpdateEvent accessToken t eventId ?r]"
    using assms a by (simp add: date_update_calls_move)
  then show "\<exists>r. calls (updateEvent gc accessToken fromCalendarId eventId d options toCalendarId s0) =
                    [GetEvent accessToken fromCalendarId eventId,
                     MoveEvent accessToken fromCalendarId eventId t,
                     UpdateEvent accessToken t eventId r]
                \<and> event_start r =
                    (if differs (range_start rebuilt) (event_start moved)
                     then Some (range_start rebuilt) else event_start moved)
                \<and> event_end r =
                    (if differs (range_start rebuilt) (event_start moved)
                        \<or> differs (range_end rebuilt) (event_end moved)
                     then Some (range_end rebuilt) else event_end moved)"
    using merged_start [of moved rebuilt d] merged_end [of moved rebuilt d] by blast
qed

theorem C2_start_change_rewrites_end_witness:
  "(\<exists>r. calls (updateEvent singleEventCalendar ''token'' ''primary'' ''abc''
                 (noChanges\<lparr> data_date := Some (extractTanaDateInfo ''[[date:2025-06-18/2025-06-20]]'') \<rparr>)
                 DEFAULT_OPTIONS None (Some tokyoEvent)) =
              [GetEvent ''token'' ''primary'' ''abc'', UpdateEvent ''token'' ''primary'' ''abc'' r]
          \<and> event_start r =
              Some \<lparr> date = Some ''2025-06-18'', dateTime = None, timeZone = Some ''Asia/Tokyo'' \<rparr>
          \<and> event_end r =
              Some \<lparr> date = Some ''2025-06-20'', dateTime = None, timeZone = Some ''Etc/UTC'' \<rparr>)
   \<and> (\<exists>r. calls (updateEvent singleEventCalendar ''token'' ''primary'' ''abc''
                 (noChanges\<lparr> data_date := Some (extractTanaDateInfo ''[[date:2025-06-18/2025-06-20]]'') \<rparr>)
                 DEFAULT_OPTIONS (Some ''work'') (Some tokyoEvent)) =
              [GetEvent ''token'' ''primary'' ''abc'', MoveEvent ''token'' ''primary'' ''abc'' ''work'',
               UpdateEvent ''token'' ''work'' ''abc'' r]
          \<and> event_start r =
              Some \<lparr> date = Some ''2025-06-18'', dateTime = None, timeZone = Some ''Asia/Tokyo'' \<rparr>
          \<and> event_end r =
              Some \<lparr> date = Some ''2025-06-20'', dateTime = None, timeZone = Some ''Etc/UTC'' \<rparr>)"
proof -
  let ?d = "noChanges\<lparr> data_date := Some (extractTanaDateInfo ''[[date:2025-06-18/2025-06-20]]'') \<rparr>"
  let ?rebuilt =
    "\<lparr> range_start = \<lparr> date = Some ''2025-06-18'', dateTime = None, timeZone = Some ''Etc/UTC'' \<rparr>,
       range_end = \<lparr> date = Some ''2025-06-20'', dateTime = None, timeZone = Some ''Etc/UTC'' \<rparr> \<rparr>"
  have g: "getEvent singleEventCalendar ''token'' ''primary'' ''abc'' (Some tokyoEvent)
             = (Inr (Some tokyoEvent), Some tokyoEvent)"
    by (rule singleEventCalendar_get)
  have mv: "moveEventToAnotherCalendar singleEventCalendar ''token'' ''primary'' ''abc'' ''work''
              (Some tokyoEvent) = (Inr (Some tokyoEvent), Some tokyoEvent)"
    by (rule singleEventCalendar_move)
  have dd: "data_date ?d = Some (extractTanaDateInfo ''[[date:2025-06-18/2025-06-20]]'')"
    by simp
  have tz: "timeZoneOf ?d = ''Etc/UTC''"
    by (simp add: timeZoneOf_def noChanges_def)
  have b: "buildEventDateTimeInfo (extractTanaDateInfo ''[[date:2025-06-18/2025-06-20]]'') (timeZoneOf ?d)
      = Inr ?rebuilt"
    unfolding tz by (simp add: builder_defs)
  have t1: "moveTarget ''primary'' None = None" by (simp add: moveTarget_def)
  have t2: "moveTarget ''primary'' (Some ''work'') = Some ''work''" by (simp add: moveTarget_def)
  have n1: "\<not> differs (range_start ?rebuilt) (event_start tokyoEvent)"
    by (simp add: differs_def tokyoEvent_def)
  have n2: "differs (range_end ?rebuilt) (event_end tokyoEvent)"
    by (simp add: differs_def tokyoEvent_def)
  have s: "event_start tokyoEvent =
      Some \<lparr> date = Some ''2025-06-18'', dateTime = None, timeZone = Some ''Asia/Tokyo'' \<rparr>"
    by (simp add: tokyoEvent_def)
  note a1 = C2_start_change_rewrites_end [OF g dd b, where toCalendarId = None
      and options = DEFAULT_OPTIONS, THEN conjunct1, rule_format, OF t1]
  note a2 = C2_start_change_rewrites_end [OF g dd b, where toCalendarId = "Some ''work''"
      and options = DEFAULT_OPTIONS, THEN conjunct2, rule_format, OF conjI [OF t2 mv]]
  show ?thesis using a1 a2 n1 n2 s by simp
qed

end
